theory Spec2Isabelle
  imports Main
begin

section \<open>Python strings\<close>

text \<open>
  A Python \<open>str\<close> is a sequence of Unicode code points; it is modelled as a list of
  natural numbers, so that the whitespace and line-boundary tests of \<open>str.strip\<close>,
  \<open>str.split\<close> and \<open>str.splitlines\<close> are the ones of CPython also outside ASCII.
  \<open>py\<close> turns an ASCII literal into such a string.
\<close>

type_synonym pystr = "nat list"

definition py :: "string \<Rightarrow> pystr" where
  "py s = map of_char s"

text \<open>The characters for which \<open>str.isspace\<close> holds (CPython's whitespace table).\<close>

definition isspace :: "nat \<Rightarrow> bool" where
  "isspace c \<longleftrightarrow>
     (0x09 \<le> c \<and> c \<le> 0x0D) \<or> (0x1C \<le> c \<and> c \<le> 0x20) \<or> c = 0x85 \<or> c = 0xA0 \<or>
     c = 0x1680 \<or> (0x2000 \<le> c \<and> c \<le> 0x200A) \<or> c = 0x2028 \<or> c = 0x2029 \<or>
     c = 0x202F \<or> c = 0x205F \<or> c = 0x3000"

text \<open>The characters at which \<open>str.splitlines\<close> breaks a line (CPython's line-break table).\<close>

definition islinebreak :: "nat \<Rightarrow> bool" where
  "islinebreak c \<longleftrightarrow>
     (0x0A \<le> c \<and> c \<le> 0x0D) \<or> (0x1C \<le> c \<and> c \<le> 0x1E) \<or> c = 0x85 \<or>
     c = 0x2028 \<or> c = 0x2029"

text \<open>\<open>s.strip()\<close>: whitespace removed at both ends.\<close>

definition str_strip :: "pystr \<Rightarrow> pystr" where
  "str_strip s = rev (dropWhile isspace (rev (dropWhile isspace s)))"

text \<open>
  \<open>s.split()\<close>: the maximal runs of non-whitespace characters, in order; the first
  argument is the run being read.
\<close>

fun split_from :: "pystr \<Rightarrow> pystr \<Rightarrow> pystr list" where
  "split_from cur [] = (if cur = [] then [] else [cur])"
| "split_from cur (c # cs) =
     (if isspace c then (if cur = [] then split_from [] cs else cur # split_from [] cs)
      else split_from (cur @ [c]) cs)"

definition str_split :: "pystr \<Rightarrow> pystr list" where
  "str_split s = split_from [] s"

text \<open>
  \<open>s.splitlines()\<close>: the lines of \<open>s\<close> without their line breaks; a carriage return
  followed by a line feed is one break, and a break at the very end opens no further line.
\<close>

fun splitlines_from :: "pystr \<Rightarrow> pystr \<Rightarrow> pystr list" where
  "splitlines_from cur [] = (if cur = [] then [] else [cur])"
| "splitlines_from cur [c] = (if islinebreak c then [cur] else [cur @ [c]])"
| "splitlines_from cur (c # d # cs) =
     (if c = 0x0D \<and> d = 0x0A then cur # splitlines_from [] cs
      else if islinebreak c then cur # splitlines_from [] (d # cs)
      else splitlines_from (cur @ [c]) (d # cs))"

definition str_splitlines :: "pystr \<Rightarrow> pystr list" where
  "str_splitlines s = splitlines_from [] s"

section \<open>The environment and the effects of the script\<close>

text \<open>
  What \<open>subprocess.run\<close> is called with: a command line for the shell
  (\<open>shell=True\<close>) or an argument vector.
\<close>

datatype popen_args = Shell pystr | Argv "pystr list"

text \<open>
  What \<open>subprocess.run(..., check=False, text=True)\<close> does: the process completes with a
  return code and its captured output, or the call raises an instance of \<open>Exception\<close>
  (\<open>OSError\<close>, \<open>ValueError\<close>, ...) whose \<open>str\<close> is the given message. These are the
  outcomes on a host; an interrupt from the keyboard while the process runs is not one of
  them and is treated apart, in \<open>run_command_under\<close>.
\<close>

datatype outcome = Completed int pystr pystr | Raised pystr

text \<open>
  The observable actions of the script, in the order in which they happen: a call of
  \<open>print\<close> with its argument (the call is taken to succeed), and a call of
  \<open>subprocess.run\<close> with its arguments, whether it completes or raises.
\<close>

datatype event = Print pystr | Exec popen_args

text \<open>
  The host: the effective user id, \<open>shutil.which\<close>, and the behaviour of
  \<open>subprocess.run\<close>, which may depend on everything the script has done so far.
\<close>

record world =
  geteuid :: nat
  which :: "pystr \<Rightarrow> pystr option"
  subprocess_run :: "event list \<Rightarrow> popen_args \<Rightarrow> outcome"

text \<open>The exceptions that leave a function of the script.\<close>

datatype exc = SystemExit int | IndexError

text \<open>The exit status of the interpreter when \<open>main()\<close> ends with the given result.\<close>

fun exit_status :: "exc + unit \<Rightarrow> int" where
  "exit_status (Inr _) = 0"
| "exit_status (Inl (SystemExit n)) = n"
| "exit_status (Inl IndexError) = 1"

section \<open>The script\<close>

definition SERVICES :: "pystr list" where
  "SERVICES =
     [py ''vsftpd'', py ''proftpd'', py ''ssh'', py ''postfix'', py ''apache2'',
      py ''rpcbind'', py ''exim4'', py ''avahi-daemon'', py ''ModemManager'']"

text \<open>
  \<open>run_command\<close>: the \<open>try\<close> block returns the return code and the stripped output;
  the \<open>except Exception\<close> block returns \<open>(1, "", str(e))\<close>.
\<close>

definition run_command ::
  "world \<Rightarrow> pystr \<Rightarrow> bool \<Rightarrow> event list \<Rightarrow> (exc + int \<times> pystr \<times> pystr) \<times> event list" where
  "run_command w cmd use_shell tr =
     (let args = (if use_shell then Shell cmd else Argv (str_split cmd)) in
      case subprocess_run w tr args of
        Completed returncode out err \<Rightarrow>
          (Inr (returncode, str_strip out, str_strip err), tr @ [Exec args])
      | Raised msg \<Rightarrow> (Inr (1, [], msg), tr @ [Exec args]))"

text \<open>
  \<open>run_command\<close> without the restriction to the outcomes of a host. A call of
  \<open>subprocess.run\<close> has such an outcome, or it is interrupted: \<open>KeyboardInterrupt\<close> is
  raised, which is a \<open>BaseException\<close> and not an \<open>Exception\<close>, so that the \<open>except\<close>
  clause does not apply and the exception leaves \<open>run_command\<close>.
\<close>

datatype attempt = Outcome outcome | Interrupted

datatype interrupt = KeyboardInterrupt

definition run_command_under ::
  "(popen_args \<Rightarrow> attempt) \<Rightarrow> pystr \<Rightarrow> bool \<Rightarrow> interrupt + int \<times> pystr \<times> pystr" where
  "run_command_under run cmd use_shell =
     (let args = (if use_shell then Shell cmd else Argv (str_split cmd)) in
      case run args of
        Outcome (Completed returncode out err) \<Rightarrow> Inr (returncode, str_strip out, str_strip err)
      | Outcome (Raised msg) \<Rightarrow> Inr (1, [], msg)
      | Interrupted \<Rightarrow> Inl KeyboardInterrupt)"

definition have_systemctl :: "world \<Rightarrow> bool" where
  "have_systemctl w \<longleftrightarrow> which w (py ''systemctl'') \<noteq> None"

definition list_cmd :: pystr where
  "list_cmd = py ''systemctl list-unit-files --type=service --all --no-legend --no-pager''"

text \<open>
  The \<open>for line in out.splitlines()\<close> loop of \<open>service_exists\<close>;
  \<open>line.split()[0]\<close> raises \<open>IndexError\<close> when the line has no token.
\<close>

fun scan_lines :: "pystr \<Rightarrow> pystr list \<Rightarrow> exc + bool" where
  "scan_lines target [] = Inr False"
| "scan_lines target (line # rest) =
     (case str_split line of
        [] \<Rightarrow> Inl IndexError
      | tok # _ \<Rightarrow>
          if str_strip tok = target then Inr True else scan_lines target rest)"

definition service_exists :: "world \<Rightarrow> pystr \<Rightarrow> event list \<Rightarrow> (exc + bool) \<times> event list" where
  "service_exists w svc tr =
     (case run_command w list_cmd True tr of
        (Inl e, tr') \<Rightarrow> (Inl e, tr')
      | (Inr (code, out, _), tr') \<Rightarrow>
          if code \<noteq> 0 \<or> out = [] then (Inr False, tr')
          else (scan_lines (svc @ py ''.service'') (str_splitlines out), tr'))"

subsection \<open>The messages of \<open>main\<close>\<close>

definition msg_no_systemctl :: pystr where
  "msg_no_systemctl =
     0x274C # py '' systemctl not found. This script requires systemd (Ubuntu default).''"

definition msg_checking :: "pystr \<Rightarrow> pystr" where
  "msg_checking svc = 0x0A # 0x1F50D # py '' Checking status of '' @ svc @ py ''...''"

definition msg_not_found :: "pystr \<Rightarrow> pystr" where
  "msg_not_found svc =
     0x26A0 # 0xFE0F # py ''  '' @ svc @ py '' not found (not installed) or unit file missing.''"

definition msg_exists :: "pystr \<Rightarrow> pystr" where
  "msg_exists svc = 0x2705 # py '' '' @ svc @ py '' exists. Stopping and disabling it...''"

definition msg_stopped :: "pystr \<Rightarrow> pystr" where
  "msg_stopped svc = 0x1F6D1 # py '' Stopped '' @ svc @ py ''.''"

definition msg_could_not_stop :: "pystr \<Rightarrow> pystr \<Rightarrow> pystr" where
  "msg_could_not_stop svc detail =
     0x2139 # 0xFE0F # py ''  Could not stop '' @ svc @ py '': '' @ detail"

definition msg_disabled :: "pystr \<Rightarrow> pystr" where
  "msg_disabled svc = 0x1F6AB # py '' Disabled '' @ svc @ py ''.''"

definition msg_could_not_disable :: "pystr \<Rightarrow> pystr \<Rightarrow> pystr" where
  "msg_could_not_disable svc detail =
     0x2139 # 0xFE0F # py ''  Could not disable '' @ svc @ py '': '' @ detail"

definition msg_done :: pystr where
  "msg_done = 0x0A # 0x2705 # py '' All specified services have been processed.''"

text \<open>\<open>err or out\<close>: the first operand unless it is the empty string.\<close>

definition str_or :: "pystr \<Rightarrow> pystr \<Rightarrow> pystr" where
  "str_or err out = (if err \<noteq> [] then err else out)"

subsection \<open>\<open>main\<close>\<close>

definition sudo_prefix :: "world \<Rightarrow> pystr" where
  "sudo_prefix w = (let use_sudo = (geteuid w \<noteq> 0) in if use_sudo then py ''sudo '' else [])"

definition stop_cmd :: "pystr \<Rightarrow> pystr \<Rightarrow> pystr" where
  "stop_cmd sudo svc = sudo @ py ''systemctl stop '' @ svc"

definition disable_cmd :: "pystr \<Rightarrow> pystr \<Rightarrow> pystr" where
  "disable_cmd sudo svc = sudo @ py ''systemctl disable '' @ svc"

text \<open>The body of the \<open>for svc in SERVICES\<close> loop, for one service.\<close>

definition main_body :: "world \<Rightarrow> pystr \<Rightarrow> pystr \<Rightarrow> event list \<Rightarrow> (exc + unit) \<times> event list" where
  "main_body w sudo svc tr0 =
     (let tr1 = tr0 @ [Print (msg_checking svc)] in
      case service_exists w svc tr1 of
        (Inl e, tr2) \<Rightarrow> (Inl e, tr2)
      | (Inr found, tr2) \<Rightarrow>
          if \<not> found then (Inr (), tr2 @ [Print (msg_not_found svc)])
          else
            (let tr3 = tr2 @ [Print (msg_exists svc)] in
             (case run_command w (stop_cmd sudo svc) False tr3 of
                (Inl e, tr4) \<Rightarrow> (Inl e, tr4)
              | (Inr (code, out, err), tr4) \<Rightarrow>
                  (let tr5 = tr4 @ [Print (if code = 0 then msg_stopped svc
                                           else msg_could_not_stop svc (str_or err out))] in
                   (case run_command w (disable_cmd sudo svc) False tr5 of
                      (Inl e, tr6) \<Rightarrow> (Inl e, tr6)
                    | (Inr (code, out, err), tr6) \<Rightarrow>
                        (Inr (), tr6 @ [Print (if code = 0 then msg_disabled svc
                                               else msg_could_not_disable svc
                                                      (str_or err out))]))))))"

text \<open>The loop: an exception raised in the body ends it.\<close>

fun main_loop :: "world \<Rightarrow> pystr \<Rightarrow> pystr list \<Rightarrow> event list \<Rightarrow> (exc + unit) \<times> event list" where
  "main_loop w sudo [] tr = (Inr (), tr)"
| "main_loop w sudo (svc # svcs) tr =
     (case main_body w sudo svc tr of
        (Inl e, tr') \<Rightarrow> (Inl e, tr')
      | (Inr _, tr') \<Rightarrow> main_loop w sudo svcs tr')"

text \<open>\<open>main\<close>, started with nothing done yet: its result and everything it did.\<close>

definition main :: "world \<Rightarrow> (exc + unit) \<times> event list" where
  "main w =
     (let sudo = sudo_prefix w in
      if \<not> have_systemctl w then (Inl (SystemExit 1), [Print msg_no_systemctl])
      else
        case main_loop w sudo SERVICES [] of
          (Inl e, tr) \<Rightarrow> (Inl e, tr)
        | (Inr _, tr) \<Rightarrow> (Inr (), tr @ [Print msg_done]))"

section \<open>Notions used in the statements\<close>

text \<open>The arguments of the \<open>subprocess.run\<close> calls among the events, in order.\<close>

fun execs :: "event list \<Rightarrow> popen_args list" where
  "execs [] = []"
| "execs (Print _ # es) = execs es"
| "execs (Exec a # es) = a # execs es"

text \<open>What \<open>run_command\<close> returns for an outcome of \<open>subprocess.run\<close>.\<close>

fun returned :: "outcome \<Rightarrow> int \<times> pystr \<times> pystr" where
  "returned (Completed rc out err) = (rc, str_strip out, str_strip err)"
| "returned (Raised msg) = (1, [], msg)"

text \<open>The argument vector of \<open>run_command(f"{sudo}systemctl stop {svc}")\<close>.\<close>

definition stop_args :: "pystr \<Rightarrow> pystr \<Rightarrow> popen_args" where
  "stop_args sudo svc = Argv (str_split (stop_cmd sudo svc))"

text \<open>The argument vector of \<open>run_command(f"{sudo}systemctl disable {svc}")\<close>.\<close>

definition disable_args :: "pystr \<Rightarrow> pystr \<Rightarrow> popen_args" where
  "disable_args sudo svc = Argv (str_split (disable_cmd sudo svc))"

text \<open>The words that the \<open>sudo\<close> prefix of \<open>main\<close> puts in front of a command.\<close>

definition sudo_words :: "world \<Rightarrow> pystr list" where
  "sudo_words w = (if geteuid w \<noteq> 0 then [py ''sudo''] else [])"

text \<open>The commands that the loop of \<open>main\<close> can issue for the given services.\<close>

definition commands_of :: "pystr \<Rightarrow> pystr list \<Rightarrow> popen_args set" where
  "commands_of sudo svcs =
     insert (Shell list_cmd) ((stop_args sudo ` set svcs) \<union> (disable_args sudo ` set svcs))"

text \<open>A host on which \<open>systemctl\<close> is installed, on which every shell command has one outcome
  and every other command another.\<close>

definition fixed_world :: "nat \<Rightarrow> outcome \<Rightarrow> outcome \<Rightarrow> world" where
  "fixed_world uid listing other =
     \<lparr>geteuid = uid,
      which = (\<lambda>_. Some (py ''/usr/bin/systemctl'')),
      subprocess_run = (\<lambda>tr a. case a of Shell _ \<Rightarrow> listing | Argv _ \<Rightarrow> other)\<rparr>"

text \<open>
  A listing of two installed units, and a host of an unprivileged user on which the
  listing succeeds with it while every \<open>stop\<close> and \<open>disable\<close> fails.
\<close>

definition sample_listing :: pystr where
  "sample_listing =
     py ''cron.service    enabled'' @ [0x0A] @ py ''ssh.service     disabled'' @ [0x0A]"

definition ssh_host :: world where
  "ssh_host =
     fixed_world 1000 (Completed 0 sample_listing [])
       (Completed 1 [] (py ''Failed to connect to bus''))"

text \<open>What \<open>main\<close> has done on \<open>ssh_host\<close> when it comes to the third service.\<close>

definition two_skipped :: "event list" where
  "two_skipped =
     [Print (msg_checking (py ''vsftpd'')), Exec (Shell list_cmd),
      Print (msg_not_found (py ''vsftpd'')),
      Print (msg_checking (py ''proftpd'')), Exec (Shell list_cmd),
      Print (msg_not_found (py ''proftpd''))]"

text \<open>
  A listing with an empty line between two units, and a host of the superuser on which
  every listing succeeds with it.
\<close>

definition blank_listing :: pystr where
  "blank_listing =
     py ''cron.service enabled'' @ [0x0A, 0x0A] @ py ''ssh.service enabled'' @ [0x0A]"

definition blank_host :: world where
  "blank_host = fixed_world 0 (Completed 0 blank_listing []) (Completed 0 [] [])"

text \<open>A host on which every listing fails with return code 1 and a message on standard error.\<close>

definition silent_host :: world where
  "silent_host =
     fixed_world 0 (Completed 1 [] (py ''Failed to connect to bus'')) (Completed 0 [] [])"

text \<open>
  The listing gives \<open>service_exists\<close> nothing to look at: the return code is nonzero, or
  the output is empty once stripped, or the call raised.
\<close>

fun listing_failed :: "outcome \<Rightarrow> bool" where
  "listing_failed (Completed rc out err) \<longleftrightarrow> rc \<noteq> 0 \<or> str_strip out = []"
| "listing_failed (Raised msg) \<longleftrightarrow> True"

text \<open>Every line of the stripped listing has a token.\<close>

fun listing_has_tokens :: "outcome \<Rightarrow> bool" where
  "listing_has_tokens (Completed rc out err) \<longleftrightarrow>
     list_all (\<lambda>line. str_split line \<noteq> []) (str_splitlines (str_strip out))"
| "listing_has_tokens (Raised msg) \<longleftrightarrow> True"

text \<open>An external command failed: a nonzero return code, or \<open>subprocess.run\<close> raised.\<close>

fun command_failed :: "outcome \<Rightarrow> bool" where
  "command_failed (Completed rc out err) \<longleftrightarrow> rc \<noteq> 0"
| "command_failed (Raised msg) \<longleftrightarrow> True"

text \<open>
  The text of a failed command: its standard error, stripped, or its standard output,
  stripped, when that is empty; for a call that raised, the message of the exception.
\<close>

fun failure_text :: "outcome \<Rightarrow> pystr" where
  "failure_text (Completed rc out err) =
     (if str_strip err = [] then str_strip out else str_strip err)"
| "failure_text (Raised msg) = msg"

text \<open>
  A host on which every listing succeeds and shows one unit, which is none of
  \<open>SERVICES\<close>.
\<close>

definition healthy_host :: world where
  "healthy_host =
     fixed_world 0 (Completed 0 (py ''cron.service enabled'' @ [0x0A]) []) (Completed 0 [] [])"


text \<open>
  Two behaviours of \<open>subprocess.run\<close>: every call is interrupted; every call raises an
  \<open>Exception\<close> with the given message.
\<close>

definition interrupting :: "popen_args \<Rightarrow> attempt" where
  "interrupting args = Interrupted"

definition raising :: "pystr \<Rightarrow> popen_args \<Rightarrow> attempt" where
  "raising msg args = Outcome (Raised msg)"

section \<open>Auxiliary facts\<close>

subsection \<open>What the functions of the script return\<close>

lemma execs_append: "execs (xs @ ys) = execs xs @ execs ys"
  by (induction xs rule: execs.induct) simp_all

lemma run_command_eq:
  "run_command w cmd sh tr =
     (Inr (returned (subprocess_run w tr (if sh then Shell cmd else Argv (str_split cmd)))),
      tr @ [Exec (if sh then Shell cmd else Argv (str_split cmd))])"
  by (simp add: run_command_def Let_def split: outcome.split)

lemma service_exists_eq:
  "service_exists w svc tr =
     (case returned (subprocess_run w tr (Shell list_cmd)) of
        (code, out, err) \<Rightarrow>
          if code \<noteq> 0 \<or> out = [] then Inr False
          else scan_lines (svc @ py ''.service'') (str_splitlines out),
      tr @ [Exec (Shell list_cmd)])"
  by (simp add: service_exists_def run_command_eq split: prod.split)

lemma snd_service_exists: "snd (service_exists w svc tr) = tr @ [Exec (Shell list_cmd)]"
  by (simp add: service_exists_eq)

lemma main_body_crash:
  "service_exists w svc (tr @ [Print (msg_checking svc)]) = (Inl e, tr1) \<Longrightarrow>
   main_body w sudo svc tr = (Inl e, tr1)"
  by (simp add: main_body_def)

lemma main_body_absent:
  "service_exists w svc (tr @ [Print (msg_checking svc)]) = (Inr False, tr1) \<Longrightarrow>
   main_body w sudo svc tr = (Inr (), tr1 @ [Print (msg_not_found svc)])"
  by (simp add: main_body_def)

lemma main_body_present:
  "service_exists w svc (tr @ [Print (msg_checking svc)]) = (Inr True, tr1) \<Longrightarrow>
   \<exists>m1 m2. main_body w sudo svc tr =
     (Inr (), tr1 @ [Print (msg_exists svc), Exec (stop_args sudo svc), Print m1,
                     Exec (disable_args sudo svc), Print m2])"
  by (simp add: main_body_def run_command_eq Let_def stop_args_def disable_args_def split: prod.split)

subsection \<open>Tokens and argument vectors\<close>

lemma split_from_no_ws:
  "\<forall>c\<in>set s. \<not> isspace c \<Longrightarrow> split_from cur s = (if cur @ s = [] then [] else [cur @ s])"
  by (induction s arbitrary: cur) simp_all

lemma split_from_tokens:
  "t \<in> set (split_from cur s) \<Longrightarrow> \<forall>c\<in>set cur. \<not> isspace c \<Longrightarrow>
   t \<noteq> [] \<and> (\<forall>c\<in>set t. \<not> isspace c)"
proof (induction s arbitrary: cur)
  case Nil
  then show ?case by (cases "cur = []") simp_all
next
  case (Cons c cs)
  show ?case
  proof (cases "isspace c")
    case True
    then have "(t = cur \<and> cur \<noteq> []) \<or> t \<in> set (split_from [] cs)"
      using Cons.prems(1) by (cases "cur = []") simp_all
    then show ?thesis
      using Cons.IH [of "[]"] Cons.prems(2) by auto
  next
    case False
    then have "t \<in> set (split_from (cur @ [c]) cs)"
      using Cons.prems(1) by simp
    moreover have "\<forall>x\<in>set (cur @ [c]). \<not> isspace x"
      using False Cons.prems(2) by simp
    ultimately show ?thesis by (rule Cons.IH)
  qed
qed

lemma dropWhile_none: "\<forall>x\<in>set xs. \<not> P x \<Longrightarrow> dropWhile P xs = xs"
  by (cases xs) simp_all

lemma str_strip_no_ws: "\<forall>c\<in>set t. \<not> isspace c \<Longrightarrow> str_strip t = t"
  by (simp add: str_strip_def dropWhile_none)

lemma str_strip_token: "str_split l = tok # toks \<Longrightarrow> str_strip tok = tok"
proof -
  assume "str_split l = tok # toks"
  then have "tok \<in> set (split_from [] l)" by (simp add: str_split_def)
  then have "\<forall>c\<in>set tok. \<not> isspace c" using split_from_tokens by fastforce
  then show ?thesis by (rule str_strip_no_ws)
qed

lemma split_stop_root:
  "split_from [] (py ''systemctl stop '' @ s) = py ''systemctl'' # py ''stop'' # split_from [] s"
  by (simp add: py_def isspace_def)

lemma split_disable_root:
  "split_from [] (py ''systemctl disable '' @ s) = py ''systemctl'' # py ''disable'' # split_from [] s"
  by (simp add: py_def isspace_def)

lemma split_sudo:
  "split_from [] (py ''sudo '' @ s) = py ''sudo'' # split_from [] s"
  by (simp add: py_def isspace_def)

lemma stop_args_eq:
  "\<forall>c\<in>set svc. \<not> isspace c \<Longrightarrow> svc \<noteq> [] \<Longrightarrow>
   stop_args (sudo_prefix w) svc = Argv (sudo_words w @ [py ''systemctl'', py ''stop'', svc])"
  by (simp add: stop_args_def stop_cmd_def sudo_prefix_def sudo_words_def str_split_def
      split_sudo split_stop_root split_from_no_ws)

lemma disable_args_eq:
  "\<forall>c\<in>set svc. \<not> isspace c \<Longrightarrow> svc \<noteq> [] \<Longrightarrow>
   disable_args (sudo_prefix w) svc = Argv (sudo_words w @ [py ''systemctl'', py ''disable'', svc])"
  by (simp add: disable_args_def disable_cmd_def sudo_prefix_def sudo_words_def str_split_def
      split_sudo split_disable_root split_from_no_ws)

lemma SERVICES_names: "\<forall>s\<in>set SERVICES. s \<noteq> [] \<and> (\<forall>c\<in>set s. \<not> isspace c)"
  by (simp add: SERVICES_def py_def isspace_def)

lemma SERVICES_distinct: "distinct SERVICES"
  by (simp add: SERVICES_def py_def)

subsection \<open>The commands of a run\<close>

lemma main_loop_append:
  "main_loop w sudo (xs @ ys) tr =
     (case main_loop w sudo xs tr of
        (Inl e, tr') \<Rightarrow> (Inl e, tr')
      | (Inr _, tr') \<Rightarrow> main_loop w sudo ys tr')"
  by (induction xs arbitrary: tr) (auto split: prod.split sum.split)

lemma main_body_trace:
  "\<exists>ext. snd (main_body w sudo svc tr) = tr @ ext \<and> set (execs ext) \<subseteq> commands_of sudo [svc]"
proof -
  obtain r tr1 where se: "service_exists w svc (tr @ [Print (msg_checking svc)]) = (r, tr1)"
    by (cases "service_exists w svc (tr @ [Print (msg_checking svc)])")
  from se have tr1: "tr1 = tr @ [Print (msg_checking svc), Exec (Shell list_cmd)]"
    using snd_service_exists [of w svc "tr @ [Print (msg_checking svc)]"] by simp
  show ?thesis
  proof (cases r)
    case (Inl e)
    with se tr1 show ?thesis
      by (simp add: main_body_crash commands_of_def)
  next
    case (Inr b)
    show ?thesis
    proof (cases b)
      case True
      with Inr se have "service_exists w svc (tr @ [Print (msg_checking svc)]) = (Inr True, tr1)"
        by simp
      from main_body_present [OF this, of sudo] obtain m1 m2 where "main_body w sudo svc tr =
          (Inr (), tr1 @ [Print (msg_exists svc), Exec (stop_args sudo svc), Print m1,
                     Exec (disable_args sudo svc), Print m2])"
        by blast
      with tr1 show ?thesis by (simp add: commands_of_def)
    next
      case False
      with Inr se tr1 show ?thesis
        by (simp add: main_body_absent commands_of_def)
    qed
  qed
qed

lemma main_loop_trace:
  "\<exists>ext. snd (main_loop w sudo svcs tr) = tr @ ext \<and> set (execs ext) \<subseteq> commands_of sudo svcs"
proof (induction svcs arbitrary: tr)
  case Nil
  then show ?case by simp
next
  case (Cons svc svcs)
  obtain r tr1 where b: "main_body w sudo svc tr = (r, tr1)"
    by (cases "main_body w sudo svc tr")
  obtain e1 where e1: "tr1 = tr @ e1" "set (execs e1) \<subseteq> commands_of sudo [svc]"
    using main_body_trace [of w sudo svc tr] b by auto
  show ?case
  proof (cases r)
    case (Inl e)
    with b e1 show ?thesis by (auto simp add: commands_of_def)
  next
    case (Inr u)
    obtain e2 where e2: "snd (main_loop w sudo svcs tr1) = tr1 @ e2"
        "set (execs e2) \<subseteq> commands_of sudo svcs"
      using Cons.IH [of tr1] by auto
    have "snd (main_loop w sudo (svc # svcs) tr) = tr @ (e1 @ e2)"
      using b Inr e1 e2 by simp
    moreover have "set (execs (e1 @ e2)) \<subseteq> commands_of sudo (svc # svcs)"
      using e1 e2 by (auto simp add: commands_of_def execs_append)
    ultimately show ?thesis by blast
  qed
qed

lemma main_trace:
  "have_systemctl w \<Longrightarrow>
   \<exists>fin. snd (main w) = snd (main_loop w (sudo_prefix w) SERVICES []) @ fin \<and> execs fin = []"
  by (simp add: main_def Let_def split: prod.split sum.split)

lemma service_args:
  assumes "s \<in> set SERVICES"
  shows "stop_args (sudo_prefix w) s = Argv (sudo_words w @ [py ''systemctl'', py ''stop'', s])"
    and "disable_args (sudo_prefix w) s = Argv (sudo_words w @ [py ''systemctl'', py ''disable'', s])"
proof -
  from assms SERVICES_names have s: "\<forall>c\<in>set s. \<not> isspace c" "s \<noteq> []"
    by blast+
  from s show "stop_args (sudo_prefix w) s = Argv (sudo_words w @ [py ''systemctl'', py ''stop'', s])"
    by (rule stop_args_eq)
  from s show "disable_args (sudo_prefix w) s = Argv (sudo_words w @ [py ''systemctl'', py ''disable'', s])"
    by (rule disable_args_eq)
qed

lemma stop_ne_disable: "py ''stop'' \<noteq> py ''disable''"
  by (simp add: py_def)

lemma args_distinct:
  assumes "s \<in> set SERVICES" "s' \<in> set SERVICES"
  shows "stop_args (sudo_prefix w) s \<noteq> disable_args (sudo_prefix w) s'"
    and "stop_args (sudo_prefix w) s = stop_args (sudo_prefix w) s' \<Longrightarrow> s = s'"
    and "disable_args (sudo_prefix w) s = disable_args (sudo_prefix w) s' \<Longrightarrow> s = s'"
  using stop_ne_disable
  by (simp_all add: service_args [OF assms(1)] service_args [OF assms(2)])

lemma not_in_commands:
  assumes "svc \<in> set SERVICES" "set svcs \<subseteq> set SERVICES" "svc \<notin> set svcs"
  shows "stop_args (sudo_prefix w) svc \<notin> commands_of (sudo_prefix w) svcs"
    and "disable_args (sudo_prefix w) svc \<notin> commands_of (sudo_prefix w) svcs"
proof -
  have shell: "stop_args (sudo_prefix w) svc \<noteq> Shell list_cmd"
      "disable_args (sudo_prefix w) svc \<noteq> Shell list_cmd"
    by (simp_all add: stop_args_def disable_args_def)
  have other: "stop_args (sudo_prefix w) svc \<noteq> stop_args (sudo_prefix w) s
      \<and> stop_args (sudo_prefix w) svc \<noteq> disable_args (sudo_prefix w) s
      \<and> disable_args (sudo_prefix w) svc \<noteq> stop_args (sudo_prefix w) s
      \<and> disable_args (sudo_prefix w) svc \<noteq> disable_args (sudo_prefix w) s" if "s \<in> set svcs" for s
  proof -
    from that assms have s: "s \<in> set SERVICES" "s \<noteq> svc" by auto
    show ?thesis
      using args_distinct [OF assms(1) s(1), of w] args_distinct [OF s(1) assms(1), of w] s(2)
      by metis
  qed
  show "stop_args (sudo_prefix w) svc \<notin> commands_of (sudo_prefix w) svcs"
    using shell other unfolding commands_of_def by blast
  show "disable_args (sudo_prefix w) svc \<notin> commands_of (sudo_prefix w) svcs"
    using shell other unfolding commands_of_def by blast
qed

lemma services_split:
  assumes "SERVICES = pre @ svc # post"
  shows "svc \<in> set SERVICES" "set pre \<subseteq> set SERVICES" "set post \<subseteq> set SERVICES"
    "svc \<notin> set pre" "svc \<notin> set post"
proof -
  from assms SERVICES_distinct have "distinct (pre @ svc # post)" by simp
  then show "svc \<notin> set pre" "svc \<notin> set post" by auto
  show "svc \<in> set SERVICES" "set pre \<subseteq> set SERVICES" "set post \<subseteq> set SERVICES"
    unfolding assms by auto
qed

lemma service_turn:
  assumes sys: "have_systemctl w"
    and dec: "SERVICES = pre @ svc # post"
    and reach: "main_loop w (sudo_prefix w) pre [] = (Inr (), tr0)"
    and body: "main_body w (sudo_prefix w) svc tr0 = (Inr (), tr0 @ seg)"
  shows "main_loop w (sudo_prefix w) SERVICES [] = main_loop w (sudo_prefix w) post (tr0 @ seg)"
    and "\<exists>after. snd (main w) = tr0 @ seg @ after \<and>
           set (execs after) \<subseteq> commands_of (sudo_prefix w) post"
    and "set (execs tr0) \<subseteq> commands_of (sudo_prefix w) pre"
proof -
  show loop: "main_loop w (sudo_prefix w) SERVICES [] = main_loop w (sudo_prefix w) post (tr0 @ seg)"
    unfolding dec using reach body by (simp add: main_loop_append)
  obtain ext where ext: "snd (main_loop w (sudo_prefix w) post (tr0 @ seg)) = (tr0 @ seg) @ ext"
      "set (execs ext) \<subseteq> commands_of (sudo_prefix w) post"
    using main_loop_trace [of w "sudo_prefix w" post "tr0 @ seg"] by blast
  obtain fin where fin: "snd (main w) = snd (main_loop w (sudo_prefix w) SERVICES []) @ fin"
      "execs fin = []"
    using main_trace [OF sys] by blast
  have "snd (main w) = tr0 @ seg @ (ext @ fin)"
    using fin(1) loop ext(1) by simp
  moreover have "set (execs (ext @ fin)) \<subseteq> commands_of (sudo_prefix w) post"
    using ext(2) fin(2) by (simp add: execs_append)
  ultimately show "\<exists>after. snd (main w) = tr0 @ seg @ after \<and>
           set (execs after) \<subseteq> commands_of (sudo_prefix w) post"
    by blast
  show "set (execs tr0) \<subseteq> commands_of (sudo_prefix w) pre"
    using main_loop_trace [of w "sudo_prefix w" pre "[]"] reach by auto
qed

subsection \<open>Concrete hosts\<close>

text \<open>The definitions that evaluate the script on a concrete host.\<close>

lemmas eval_defs = main_body_def service_exists_eq fixed_world_def
  str_strip_def str_splitlines_def str_split_def py_def isspace_def islinebreak_def
  have_systemctl_def

lemma ssh_host_systemctl: "have_systemctl ssh_host"
  by (simp add: have_systemctl_def ssh_host_def fixed_world_def)

lemma services_at_ssh:
  "SERVICES = [py ''vsftpd'', py ''proftpd''] @ py ''ssh'' #
     [py ''postfix'', py ''apache2'', py ''rpcbind'', py ''exim4'', py ''avahi-daemon'',
      py ''ModemManager'']"
  by (simp add: SERVICES_def)

lemma ssh_host_two_skipped:
  "main_loop ssh_host (sudo_prefix ssh_host) [py ''vsftpd'', py ''proftpd''] [] =
     (Inr (), two_skipped)"
  by (simp add: eval_defs ssh_host_def sample_listing_def two_skipped_def)

lemma ssh_host_ssh:
  "service_exists ssh_host (py ''ssh'') (two_skipped @ [Print (msg_checking (py ''ssh''))]) =
     (Inr True, two_skipped @ [Print (msg_checking (py ''ssh'')), Exec (Shell list_cmd)])"
  by (simp add: eval_defs ssh_host_def sample_listing_def)

lemma services_at_vsftpd:
  "SERVICES = [] @ py ''vsftpd'' #
     [py ''proftpd'', py ''ssh'', py ''postfix'', py ''apache2'', py ''rpcbind'', py ''exim4'',
      py ''avahi-daemon'', py ''ModemManager'']"
  by (simp add: SERVICES_def)

lemma ssh_host_vsftpd:
  "service_exists ssh_host (py ''vsftpd'') ([] @ [Print (msg_checking (py ''vsftpd''))]) =
     (Inr False, [Print (msg_checking (py ''vsftpd'')), Exec (Shell list_cmd)])"
  by (simp add: eval_defs ssh_host_def sample_listing_def)

lemma main_loop_nothing: "main_loop w sudo [] [] = (Inr (), [])"
  by simp

lemma ssh_host_run:
  "execs (snd (main ssh_host)) =
     [Shell list_cmd, Shell list_cmd, Shell list_cmd,
      Argv [py ''sudo'', py ''systemctl'', py ''stop'', py ''ssh''],
      Argv [py ''sudo'', py ''systemctl'', py ''disable'', py ''ssh''],
      Shell list_cmd, Shell list_cmd, Shell list_cmd, Shell list_cmd, Shell list_cmd,
      Shell list_cmd]"
  by (simp add: main_def SERVICES_def sudo_prefix_def stop_cmd_def disable_cmd_def run_command_eq
      eval_defs ssh_host_def sample_listing_def)

subsection \<open>Lines without a token\<close>

lemma scan_lines_blank:
  assumes "str_split blank = []"
    and "list_all (\<lambda>l. str_split l \<noteq> [] \<and> hd (str_split l) \<noteq> t) before"
  shows "scan_lines t (before @ blank # rest) = Inl IndexError"
  using assms(2)
proof (induction before)
  case Nil
  show ?case by (simp add: assms(1))
next
  case (Cons l ls)
  then obtain tok toks where tok: "str_split l = tok # toks" "tok \<noteq> t"
    by (cases "str_split l") auto
  from tok(1) have "str_strip tok = tok" by (rule str_strip_token)
  with tok Cons show ?case by simp
qed

lemma main_crash:
  assumes sys: "have_systemctl w"
    and dec: "SERVICES = pre @ svc # post"
    and reach: "main_loop w (sudo_prefix w) pre [] = (Inr (), tr0)"
    and body: "main_body w (sudo_prefix w) svc tr0 = (Inl e, tr1)"
  shows "main w = (Inl e, tr1)"
proof -
  have "main_loop w (sudo_prefix w) SERVICES [] = (Inl e, tr1)"
    unfolding dec using reach body by (simp add: main_loop_append)
  with sys show ?thesis by (simp add: main_def)
qed

lemma blank_host_systemctl: "have_systemctl blank_host"
  by (simp add: have_systemctl_def blank_host_def fixed_world_def)

lemma blank_host_listing:
  "subprocess_run blank_host ([] @ [Print (msg_checking (py ''vsftpd''))]) (Shell list_cmd) =
     Completed 0 blank_listing []"
  by (simp add: blank_host_def fixed_world_def)

lemma blank_listing_lines:
  "str_splitlines (str_strip blank_listing) =
     [py ''cron.service enabled''] @ [] # [py ''ssh.service enabled'']"
  by (simp add: blank_listing_def eval_defs)

lemma split_nothing: "str_split [] = []"
  by (simp add: str_split_def)

lemma cron_line_no_match:
  "list_all (\<lambda>l. str_split l \<noteq> [] \<and> hd (str_split l) \<noteq> py ''vsftpd'' @ py ''.service'')
     [py ''cron.service enabled'']"
  by (simp add: eval_defs)

subsection \<open>Listings that fail\<close>

lemma failed_listing_absent:
  assumes "listing_failed (subprocess_run w tr (Shell list_cmd))"
  shows "service_exists w svc tr = (Inr False, tr @ [Exec (Shell list_cmd)])"
  using assms
  by (cases "subprocess_run w tr (Shell list_cmd)") (auto simp add: service_exists_eq)


subsection \<open>Listings whose lines all have a token\<close>

lemma scan_lines_total:
  "list_all (\<lambda>line. str_split line \<noteq> []) ls \<Longrightarrow> \<exists>b. scan_lines t ls = Inr b"
  by (induction ls) (auto split: list.split)

lemma service_exists_total:
  assumes "listing_has_tokens (subprocess_run w tr (Shell list_cmd))"
  shows "\<exists>b. service_exists w svc tr = (Inr b, tr @ [Exec (Shell list_cmd)])"
proof (cases "subprocess_run w tr (Shell list_cmd)")
  case (Completed rc out err)
  with assms obtain b where
    "scan_lines (svc @ py ''.service'') (str_splitlines (str_strip out)) = Inr b"
    using scan_lines_total by fastforce
  with Completed show ?thesis by (auto simp add: service_exists_eq)
next
  case (Raised msg)
  then show ?thesis by (auto simp add: service_exists_eq)
qed

lemma main_body_total:
  assumes "listing_has_tokens (subprocess_run w (tr @ [Print (msg_checking svc)]) (Shell list_cmd))"
  shows "\<exists>ext. main_body w sudo svc tr =
           (Inr (), tr @ Print (msg_checking svc) # Exec (Shell list_cmd) # ext)
         \<and> Shell list_cmd \<notin> set (execs ext)"
proof -
  obtain b where se: "service_exists w svc (tr @ [Print (msg_checking svc)]) =
      (Inr b, (tr @ [Print (msg_checking svc)]) @ [Exec (Shell list_cmd)])"
    using service_exists_total [OF assms] by blast
  show ?thesis
  proof (cases b)
    case True
    with se obtain m1 m2 where "main_body w sudo svc tr =
        (Inr (), ((tr @ [Print (msg_checking svc)]) @ [Exec (Shell list_cmd)]) @
           [Print (msg_exists svc), Exec (stop_args sudo svc), Print m1,
            Exec (disable_args sudo svc), Print m2])"
      using main_body_present [of w svc tr _ sudo] by auto
    then show ?thesis by (simp add: stop_args_def disable_args_def)
  next
    case False
    with se have "main_body w sudo svc tr =
        (Inr (), ((tr @ [Print (msg_checking svc)]) @ [Exec (Shell list_cmd)]) @
           [Print (msg_not_found svc)])"
      using main_body_absent [of w svc tr _ sudo] by auto
    then show ?thesis by simp
  qed
qed

lemma main_loop_total:
  assumes "\<forall>tr. listing_has_tokens (subprocess_run w tr (Shell list_cmd))"
  shows "\<exists>ext. main_loop w sudo svcs tr = (Inr (), tr @ ext)
           \<and> count_list (execs ext) (Shell list_cmd) = length svcs
           \<and> list_all (\<lambda>svc. Print (msg_checking svc) \<in> set ext) svcs"
proof (induction svcs arbitrary: tr)
  case Nil
  show ?case by simp
next
  case (Cons svc svcs)
  obtain e1 where e1: "main_body w sudo svc tr =
        (Inr (), tr @ Print (msg_checking svc) # Exec (Shell list_cmd) # e1)"
      "Shell list_cmd \<notin> set (execs e1)"
    using main_body_total [of w tr svc sudo] assms by blast
  obtain e2 where e2: "main_loop w sudo svcs (tr @ Print (msg_checking svc) # Exec (Shell list_cmd) # e1)
        = (Inr (), (tr @ Print (msg_checking svc) # Exec (Shell list_cmd) # e1) @ e2)"
      "count_list (execs e2) (Shell list_cmd) = length svcs"
      "list_all (\<lambda>svc. Print (msg_checking svc) \<in> set e2) svcs"
    using Cons.IH by blast
  let ?ext = "Print (msg_checking svc) # Exec (Shell list_cmd) # e1 @ e2"
  have "main_loop w sudo (svc # svcs) tr = (Inr (), tr @ ?ext)"
    using e1(1) e2(1) by simp
  moreover have "count_list (execs ?ext) (Shell list_cmd) = length (svc # svcs)"
    using e1(2) e2(2) by (simp add: execs_append)
  moreover have "list_all (\<lambda>svc. Print (msg_checking svc) \<in> set ?ext) (svc # svcs)"
    using e2(3) by (simp add: list_all_iff)
  ultimately show ?case by blast
qed

lemma ssh_host_commands_fail:
  "\<forall>tr a. command_failed (subprocess_run ssh_host tr (Argv a))"
  by (simp add: ssh_host_def fixed_world_def)

text \<open>
  When every line of every listing has a token, \<open>main\<close> returns normally whatever the
  \<open>stop\<close> and \<open>disable\<close> invocations do.
\<close>

lemma clean_listings_complete:
  assumes sys: "have_systemctl w"
    and ok: "\<forall>tr. listing_has_tokens (subprocess_run w tr (Shell list_cmd))"
  shows "fst (main w) = Inr () \<and> exit_status (fst (main w)) = 0
       \<and> list_all (\<lambda>svc. Print (msg_checking svc) \<in> set (snd (main w))) SERVICES
       \<and> count_list (execs (snd (main w))) (Shell list_cmd) = length SERVICES
       \<and> last (snd (main w)) = Print msg_done"
proof -
  obtain ext where ext: "main_loop w (sudo_prefix w) SERVICES [] = (Inr (), [] @ ext)"
      "count_list (execs ext) (Shell list_cmd) = length SERVICES"
      "list_all (\<lambda>svc. Print (msg_checking svc) \<in> set ext) SERVICES"
    using main_loop_total [OF ok, of "sudo_prefix w" SERVICES "[]"] by blast
  have m: "main w = (Inr (), ext @ [Print msg_done])"
    using sys ext(1) by (simp add: main_def)
  have "list_all (\<lambda>svc. Print (msg_checking svc) \<in> set (snd (main w))) SERVICES"
    using ext(3) by (simp add: m list_all_iff)
  moreover have "count_list (execs (snd (main w))) (Shell list_cmd) = length SERVICES"
    using ext(2) by (simp add: m execs_append)
  ultimately show ?thesis by (simp add: m)
qed

subsection \<open>Reports of failed commands\<close>

lemma command_failed_listing: "command_failed oc \<Longrightarrow> listing_failed oc"
  by (cases oc) simp_all

lemma ssh_host_stop_fails:
  "command_failed (subprocess_run ssh_host tr (stop_args sudo svc))"
  "command_failed (subprocess_run ssh_host tr (disable_args sudo svc))"
  by (simp_all add: stop_args_def disable_args_def ssh_host_commands_fail)

lemma ssh_host_ssh_found:
  "fst (service_exists ssh_host (py ''ssh'') (two_skipped @ [Print (msg_checking (py ''ssh''))])) =
     Inr True"
  by (simp add: ssh_host_ssh)

lemma silent_host_listing_fails:
  "command_failed (subprocess_run silent_host tr (Shell list_cmd))"
  by (simp add: silent_host_def fixed_world_def)

lemma command_failed_code: "returned oc = (code, out, err) \<Longrightarrow> command_failed oc \<longleftrightarrow> code \<noteq> 0"
  by (cases oc) auto

lemma failure_text_eq:
  "returned oc = (code, out, err) \<Longrightarrow> failure_text oc = str_or err out"
  by (cases oc) (auto simp add: str_or_def)

lemma main_body_present_eq:
  assumes found: "fst (service_exists w svc (tr0 @ [Print (msg_checking svc)])) = Inr True"
    and tr2: "tr2 = tr0 @ [Print (msg_checking svc), Exec (Shell list_cmd), Print (msg_exists svc)]"
    and said_stop: "said_stop =
        (if command_failed (subprocess_run w tr2 (stop_args sudo svc))
         then [0x2139, 0xFE0F] @ py ''  Could not stop '' @ svc @ py '': '' @
              failure_text (subprocess_run w tr2 (stop_args sudo svc))
         else [0x1F6D1] @ py '' Stopped '' @ svc @ py ''.'')"
    and tr3: "tr3 = tr2 @ [Exec (stop_args sudo svc), Print said_stop]"
    and said_disable: "said_disable =
        (if command_failed (subprocess_run w tr3 (disable_args sudo svc))
         then [0x2139, 0xFE0F] @ py ''  Could not disable '' @ svc @ py '': '' @
              failure_text (subprocess_run w tr3 (disable_args sudo svc))
         else [0x1F6AB] @ py '' Disabled '' @ svc @ py ''.'')"
  shows "main_body w sudo svc tr0 =
    (Inr (), tr3 @ [Exec (disable_args sudo svc), Print said_disable])"
proof -
  have se: "service_exists w svc (tr0 @ [Print (msg_checking svc)]) =
      (Inr True, tr0 @ [Print (msg_checking svc), Exec (Shell list_cmd)])"
    using found snd_service_exists [of w svc "tr0 @ [Print (msg_checking svc)]"]
    by (cases "service_exists w svc (tr0 @ [Print (msg_checking svc)])") simp
  obtain c1 out1 err1 where o1:
    "returned (subprocess_run w tr2 (stop_args sudo svc)) = (c1, out1, err1)"
    by (cases "returned (subprocess_run w tr2 (stop_args sudo svc))")
  obtain c2 out2 err2 where o2:
    "returned (subprocess_run w tr3 (disable_args sudo svc)) = (c2, out2, err2)"
    by (cases "returned (subprocess_run w tr3 (disable_args sudo svc))")
  have r1: "run_command w (stop_cmd sudo svc) False tr2 =
      (Inr (c1, out1, err1), tr2 @ [Exec (stop_args sudo svc)])"
    using o1 by (simp add: run_command_eq stop_args_def)
  have r2: "run_command w (disable_cmd sudo svc) False tr3 =
      (Inr (c2, out2, err2), tr3 @ [Exec (disable_args sudo svc)])"
    using o2 by (simp add: run_command_eq disable_args_def)
  have s1: "(if c1 = 0 then msg_stopped svc else msg_could_not_stop svc (str_or err1 out1)) =
      said_stop"
    by (simp add: said_stop command_failed_code [OF o1] failure_text_eq [OF o1]
        msg_stopped_def msg_could_not_stop_def)
  have s2: "(if c2 = 0 then msg_disabled svc else msg_could_not_disable svc (str_or err2 out2)) =
      said_disable"
    by (simp add: said_disable command_failed_code [OF o2] failure_text_eq [OF o2]
        msg_disabled_def msg_could_not_disable_def)
  have t3: "tr2 @ [Exec (stop_args sudo svc)] @
      [Print (if c1 = 0 then msg_stopped svc else msg_could_not_stop svc (str_or err1 out1))] = tr3"
    by (simp only: s1 tr3) simp
  have "main_body w sudo svc tr0 =
    (Inr (), (tr3 @ [Exec (disable_args sudo svc)]) @
        [Print (if c2 = 0 then msg_disabled svc else msg_could_not_disable svc (str_or err2 out2))])"
    unfolding main_body_def Let_def se
    using r1 r2 t3 by (simp add: tr2 [symmetric])
  then show ?thesis
    by (simp only: s2) simp
qed

lemma main_body_listing_failed:
  assumes "listing_failed (subprocess_run w (tr0 @ [Print (msg_checking svc)]) (Shell list_cmd))"
  shows "main_body w sudo svc tr0 =
      (Inr (), tr0 @ [Print (msg_checking svc), Exec (Shell list_cmd),
         Print ([0x26A0, 0xFE0F] @ py ''  '' @ svc @
                py '' not found (not installed) or unit file missing.'')])"
  using failed_listing_absent [OF assms, of svc]
  by (simp add: main_body_absent msg_not_found_def)

lemma ssh_host_failure_text:
  "failure_text (subprocess_run ssh_host tr (stop_args sudo svc)) = py ''Failed to connect to bus''"
  "failure_text (subprocess_run ssh_host tr (disable_args sudo svc)) = py ''Failed to connect to bus''"
  by (simp_all add: stop_args_def disable_args_def ssh_host_def fixed_world_def str_strip_def
      py_def isspace_def)

lemma healthy_host_listing_ok:
  "\<not> command_failed (subprocess_run healthy_host tr (Shell list_cmd))"
  by (simp add: healthy_host_def fixed_world_def)



section \<open>The claims\<close>

text \<open>
  C1: when the run of \<open>main\<close> comes to a service of \<open>SERVICES\<close> and \<open>service_exists\<close>
  returns \<open>True\<close> for it, the next things \<open>main\<close> does are: print that the service exists,
  invoke \<open>systemctl stop\<close> for it, print a message, invoke \<open>systemctl disable\<close> for it,
  print a message. Nothing is assumed about the outcome of either invocation, so the
  \<open>disable\<close> is issued whatever the \<open>stop\<close> returned. In the whole run each of the two
  invocations occurs exactly once. The invocations are the argument vectors
  \<open>[sudo,] systemctl stop <svc>\<close> and \<open>[sudo,] systemctl disable <svc>\<close>.
\<close>

theorem present_service_stopped_then_disabled:
  assumes sys: "have_systemctl w"
    and dec: "SERVICES = pre @ svc # post"
    and reach: "main_loop w (sudo_prefix w) pre [] = (Inr (), tr0)"
    and found: "service_exists w svc (tr0 @ [Print (msg_checking svc)]) = (Inr True, tr1)"
  shows "\<exists>m1 m2 rest.
      snd (main w) =
        tr1 @ [Print (msg_exists svc), Exec (stop_args (sudo_prefix w) svc), Print m1,
               Exec (disable_args (sudo_prefix w) svc), Print m2] @ rest
      \<and> count_list (execs (snd (main w))) (stop_args (sudo_prefix w) svc) = 1
      \<and> count_list (execs (snd (main w))) (disable_args (sudo_prefix w) svc) = 1
      \<and> stop_args (sudo_prefix w) svc = Argv (sudo_words w @ [py ''systemctl'', py ''stop'', svc])
      \<and> disable_args (sudo_prefix w) svc =
          Argv (sudo_words w @ [py ''systemctl'', py ''disable'', svc])"
proof -
  let ?stop = "stop_args (sudo_prefix w) svc"
  let ?dis = "disable_args (sudo_prefix w) svc"
  note sp = services_split [OF dec]
  have tr1: "tr1 = tr0 @ [Print (msg_checking svc), Exec (Shell list_cmd)]"
    using found snd_service_exists [of w svc "tr0 @ [Print (msg_checking svc)]"] by simp
  obtain m1 m2 where body: "main_body w (sudo_prefix w) svc tr0 =
      (Inr (), tr1 @ [Print (msg_exists svc), Exec ?stop, Print m1, Exec ?dis, Print m2])"
    using main_body_present [OF found, of "sudo_prefix w"] by blast
  let ?seg = "[Print (msg_checking svc), Exec (Shell list_cmd), Print (msg_exists svc),
      Exec ?stop, Print m1, Exec ?dis, Print m2]"
  have body': "main_body w (sudo_prefix w) svc tr0 = (Inr (), tr0 @ ?seg)"
    using body tr1 by simp
  obtain after where after: "snd (main w) = tr0 @ ?seg @ after"
      "set (execs after) \<subseteq> commands_of (sudo_prefix w) post"
    using service_turn(2) [OF sys dec reach body'] by blast
  have before: "set (execs tr0) \<subseteq> commands_of (sudo_prefix w) pre"
    using service_turn(3) [OF sys dec reach body'] .
  have out: "?stop \<notin> set (execs tr0)" "?dis \<notin> set (execs tr0)"
      "?stop \<notin> set (execs after)" "?dis \<notin> set (execs after)"
    using before after(2) not_in_commands [OF sp(1) sp(2) sp(4), of w]
      not_in_commands [OF sp(1) sp(3) sp(5), of w] by blast+
  have ne: "?stop \<noteq> ?dis" "?stop \<noteq> Shell list_cmd" "?dis \<noteq> Shell list_cmd"
    using args_distinct(1) [OF sp(1) sp(1), of w] by (simp_all add: stop_args_def disable_args_def)
  have ex: "execs (snd (main w)) = execs tr0 @ [Shell list_cmd, ?stop, ?dis] @ execs after"
    using after(1) by (simp add: execs_append)
  have c1: "count_list (execs (snd (main w))) ?stop = 1"
    using out ne by (simp add: ex)
  have c2: "count_list (execs (snd (main w))) ?dis = 1"
    using out ne by (simp add: ex)
  have shape: "snd (main w) =
      tr1 @ [Print (msg_exists svc), Exec ?stop, Print m1, Exec ?dis, Print m2] @ after"
    using after(1) tr1 by simp
  from shape c1 c2 service_args [OF sp(1), of w] show ?thesis by blast
qed

theorem present_service_stopped_then_disabled_witness:
  "have_systemctl ssh_host
   \<and> SERVICES = [py ''vsftpd'', py ''proftpd''] @ py ''ssh'' #
       [py ''postfix'', py ''apache2'', py ''rpcbind'', py ''exim4'', py ''avahi-daemon'',
        py ''ModemManager'']
   \<and> main_loop ssh_host (sudo_prefix ssh_host) [py ''vsftpd'', py ''proftpd''] [] =
       (Inr (), two_skipped)
   \<and> service_exists ssh_host (py ''ssh'') (two_skipped @ [Print (msg_checking (py ''ssh''))]) =
       (Inr True, two_skipped @ [Print (msg_checking (py ''ssh'')), Exec (Shell list_cmd)])
   \<and> (\<exists>m1 m2 rest.
      snd (main ssh_host) =
        (two_skipped @ [Print (msg_checking (py ''ssh'')), Exec (Shell list_cmd)]) @
        [Print (msg_exists (py ''ssh'')), Exec (stop_args (sudo_prefix ssh_host) (py ''ssh'')),
         Print m1, Exec (disable_args (sudo_prefix ssh_host) (py ''ssh'')), Print m2] @ rest
      \<and> count_list (execs (snd (main ssh_host))) (stop_args (sudo_prefix ssh_host) (py ''ssh'')) = 1
      \<and> count_list (execs (snd (main ssh_host))) (disable_args (sudo_prefix ssh_host) (py ''ssh'')) = 1
      \<and> stop_args (sudo_prefix ssh_host) (py ''ssh'') =
          Argv (sudo_words ssh_host @ [py ''systemctl'', py ''stop'', py ''ssh''])
      \<and> disable_args (sudo_prefix ssh_host) (py ''ssh'') =
          Argv (sudo_words ssh_host @ [py ''systemctl'', py ''disable'', py ''ssh'']))"
  by (intro conjI ssh_host_systemctl services_at_ssh ssh_host_two_skipped ssh_host_ssh
      present_service_stopped_then_disabled
        [OF ssh_host_systemctl services_at_ssh ssh_host_two_skipped ssh_host_ssh])

text \<open>
  C2: when the run of \<open>main\<close> comes to a service of \<open>SERVICES\<close> and \<open>service_exists\<close>
  returns \<open>False\<close> for it, the loop body only prints the not-found message and the loop
  goes on with the next name; in the whole run neither \<open>systemctl stop\<close> nor
  \<open>systemctl disable\<close> is invoked for that service.
\<close>

theorem absent_service_skipped:
  assumes sys: "have_systemctl w"
    and dec: "SERVICES = pre @ svc # post"
    and reach: "main_loop w (sudo_prefix w) pre [] = (Inr (), tr0)"
    and absent: "service_exists w svc (tr0 @ [Print (msg_checking svc)]) = (Inr False, tr1)"
  shows "main_body w (sudo_prefix w) svc tr0 = (Inr (), tr1 @ [Print (msg_not_found svc)])
      \<and> main_loop w (sudo_prefix w) SERVICES [] =
          main_loop w (sudo_prefix w) post (tr1 @ [Print (msg_not_found svc)])
      \<and> stop_args (sudo_prefix w) svc \<notin> set (execs (snd (main w)))
      \<and> disable_args (sudo_prefix w) svc \<notin> set (execs (snd (main w)))
      \<and> stop_args (sudo_prefix w) svc = Argv (sudo_words w @ [py ''systemctl'', py ''stop'', svc])
      \<and> disable_args (sudo_prefix w) svc =
          Argv (sudo_words w @ [py ''systemctl'', py ''disable'', svc])"
proof -
  let ?stop = "stop_args (sudo_prefix w) svc"
  let ?dis = "disable_args (sudo_prefix w) svc"
  note sp = services_split [OF dec]
  have tr1: "tr1 = tr0 @ [Print (msg_checking svc), Exec (Shell list_cmd)]"
    using absent snd_service_exists [of w svc "tr0 @ [Print (msg_checking svc)]"] by simp
  have body: "main_body w (sudo_prefix w) svc tr0 = (Inr (), tr1 @ [Print (msg_not_found svc)])"
    using main_body_absent [OF absent] .
  let ?seg = "[Print (msg_checking svc), Exec (Shell list_cmd), Print (msg_not_found svc)]"
  have body': "main_body w (sudo_prefix w) svc tr0 = (Inr (), tr0 @ ?seg)"
    using body tr1 by simp
  have loop: "main_loop w (sudo_prefix w) SERVICES [] =
      main_loop w (sudo_prefix w) post (tr1 @ [Print (msg_not_found svc)])"
    using service_turn(1) [OF sys dec reach body'] tr1 by simp
  obtain after where after: "snd (main w) = tr0 @ ?seg @ after"
      "set (execs after) \<subseteq> commands_of (sudo_prefix w) post"
    using service_turn(2) [OF sys dec reach body'] by blast
  have before: "set (execs tr0) \<subseteq> commands_of (sudo_prefix w) pre"
    using service_turn(3) [OF sys dec reach body'] .
  have out: "?stop \<notin> set (execs tr0)" "?dis \<notin> set (execs tr0)"
      "?stop \<notin> set (execs after)" "?dis \<notin> set (execs after)"
    using before after(2) not_in_commands [OF sp(1) sp(2) sp(4), of w]
      not_in_commands [OF sp(1) sp(3) sp(5), of w] by blast+
  have ne: "?stop \<noteq> Shell list_cmd" "?dis \<noteq> Shell list_cmd"
    by (simp_all add: stop_args_def disable_args_def)
  have ex: "execs (snd (main w)) = execs tr0 @ [Shell list_cmd] @ execs after"
    using after(1) by (simp add: execs_append)
  have "?stop \<notin> set (execs (snd (main w)))" "?dis \<notin> set (execs (snd (main w)))"
    using out ne by (simp_all add: ex)
  with body loop service_args [OF sp(1), of w] show ?thesis by blast
qed

theorem absent_service_skipped_witness:
  "have_systemctl ssh_host
   \<and> SERVICES = [] @ py ''vsftpd'' #
       [py ''proftpd'', py ''ssh'', py ''postfix'', py ''apache2'', py ''rpcbind'', py ''exim4'',
        py ''avahi-daemon'', py ''ModemManager'']
   \<and> main_loop ssh_host (sudo_prefix ssh_host) [] [] = (Inr (), [])
   \<and> service_exists ssh_host (py ''vsftpd'') ([] @ [Print (msg_checking (py ''vsftpd''))]) =
       (Inr False, [Print (msg_checking (py ''vsftpd'')), Exec (Shell list_cmd)])
   \<and> (main_body ssh_host (sudo_prefix ssh_host) (py ''vsftpd'') [] =
        (Inr (), [Print (msg_checking (py ''vsftpd'')), Exec (Shell list_cmd)] @
                 [Print (msg_not_found (py ''vsftpd''))])
      \<and> main_loop ssh_host (sudo_prefix ssh_host) SERVICES [] =
          main_loop ssh_host (sudo_prefix ssh_host)
            [py ''proftpd'', py ''ssh'', py ''postfix'', py ''apache2'', py ''rpcbind'',
             py ''exim4'', py ''avahi-daemon'', py ''ModemManager'']
            ([Print (msg_checking (py ''vsftpd'')), Exec (Shell list_cmd)] @
             [Print (msg_not_found (py ''vsftpd''))])
      \<and> stop_args (sudo_prefix ssh_host) (py ''vsftpd'') \<notin> set (execs (snd (main ssh_host)))
      \<and> disable_args (sudo_prefix ssh_host) (py ''vsftpd'') \<notin> set (execs (snd (main ssh_host)))
      \<and> stop_args (sudo_prefix ssh_host) (py ''vsftpd'') =
          Argv (sudo_words ssh_host @ [py ''systemctl'', py ''stop'', py ''vsftpd''])
      \<and> disable_args (sudo_prefix ssh_host) (py ''vsftpd'') =
          Argv (sudo_words ssh_host @ [py ''systemctl'', py ''disable'', py ''vsftpd'']))"
  by (intro conjI ssh_host_systemctl services_at_vsftpd main_loop_nothing ssh_host_vsftpd
      absent_service_skipped
        [OF ssh_host_systemctl services_at_vsftpd main_loop_nothing ssh_host_vsftpd])

text \<open>
  C3: the exit status is meant to be nonzero only when \<open>systemctl\<close> is missing. The
  script does not achieve this: on \<open>blank_host\<close> \<open>systemctl\<close> is installed and every
  command succeeds, the listing has an empty line, and \<open>main\<close> ends with an uncaught
  \<open>IndexError\<close> in its first iteration, with exit status 1.
\<close>

theorem blank_line_exit_status:
  "have_systemctl blank_host
   \<and> main blank_host =
       (Inl IndexError, [Print (msg_checking (py ''vsftpd'')), Exec (Shell list_cmd)])
   \<and> exit_status (fst (main blank_host)) = 1"
  by (simp add: main_def SERVICES_def eval_defs blank_host_def blank_listing_def)

text \<open>
  C4: not every failure of an external command is reported. What holds, for any host, any
  service and any moment of the run, is this.
  \<^item> If the listing fails (a nonzero return code, or \<open>subprocess.run\<close> raised, which
    \<open>run_command\<close> catches), the loop body returns normally, and what it prints after the
    listing is the line \<open><svc> not found (not installed) or unit file missing.\<close>, the
    line of a service that is absent; nothing of the failure is printed.
  \<^item> If \<open>service_exists\<close> returns \<open>True\<close>, the body invokes \<open>stop\<close>, prints, invokes
    \<open>disable\<close>, prints and returns normally, whatever the two outcomes. After a failed
    \<open>stop\<close> it prints \<open>Could not stop <svc>: \<close> followed by the standard error of the
    command, or by its standard output when the standard error is empty, or by the message
    of the exception; after a failed \<open>disable\<close> the same with \<open>Could not disable\<close>.
  \<^item> Whenever the body returns normally, the loop goes on with the remaining services.
\<close>

theorem command_failures_survived:
  "(let tr1 = tr0 @ [Print (msg_checking svc)];
        tr2 = tr1 @ [Exec (Shell list_cmd), Print (msg_exists svc)];
        stopped = subprocess_run w tr2 (stop_args sudo svc);
        said_stop =
          (if command_failed stopped
           then [0x2139, 0xFE0F] @ py ''  Could not stop '' @ svc @ py '': '' @ failure_text stopped
           else [0x1F6D1] @ py '' Stopped '' @ svc @ py ''.'');
        tr3 = tr2 @ [Exec (stop_args sudo svc), Print said_stop];
        disabled = subprocess_run w tr3 (disable_args sudo svc);
        said_disable =
          (if command_failed disabled
           then [0x2139, 0xFE0F] @ py ''  Could not disable '' @ svc @ py '': '' @
                failure_text disabled
           else [0x1F6AB] @ py '' Disabled '' @ svc @ py ''.'')
    in (command_failed (subprocess_run w tr1 (Shell list_cmd)) \<longrightarrow>
          main_body w sudo svc tr0 =
            (Inr (), tr1 @ [Exec (Shell list_cmd),
               Print ([0x26A0, 0xFE0F] @ py ''  '' @ svc @
                      py '' not found (not installed) or unit file missing.'')]))
     \<and> (fst (service_exists w svc tr1) = Inr True \<longrightarrow>
          main_body w sudo svc tr0 =
            (Inr (), tr3 @ [Exec (disable_args sudo svc), Print said_disable]))
     \<and> (fst (main_body w sudo svc tr0) = Inr () \<longrightarrow>
          main_loop w sudo (svc # rest) tr0 =
            main_loop w sudo rest (snd (main_body w sudo svc tr0))))"
proof -
  have a: "main_body w sudo svc tr0 =
      (Inr (), (tr0 @ [Print (msg_checking svc)]) @ [Exec (Shell list_cmd),
         Print ([0x26A0, 0xFE0F] @ py ''  '' @ svc @
                py '' not found (not installed) or unit file missing.'')])"
    if "command_failed (subprocess_run w (tr0 @ [Print (msg_checking svc)]) (Shell list_cmd))"
    using main_body_listing_failed [OF command_failed_listing [OF that], of sudo] by simp
  have b: "main_body w sudo svc tr0 =
      (Inr (), tr3 @ [Exec (disable_args sudo svc), Print said_disable])"
    if "fst (service_exists w svc (tr0 @ [Print (msg_checking svc)])) = Inr True"
      and "tr2 = (tr0 @ [Print (msg_checking svc)]) @ [Exec (Shell list_cmd), Print (msg_exists svc)]"
      and "said_stop =
        (if command_failed (subprocess_run w tr2 (stop_args sudo svc))
         then [0x2139, 0xFE0F] @ py ''  Could not stop '' @ svc @ py '': '' @
              failure_text (subprocess_run w tr2 (stop_args sudo svc))
         else [0x1F6D1] @ py '' Stopped '' @ svc @ py ''.'')"
      and "tr3 = tr2 @ [Exec (stop_args sudo svc), Print said_stop]"
      and "said_disable =
        (if command_failed (subprocess_run w tr3 (disable_args sudo svc))
         then [0x2139, 0xFE0F] @ py ''  Could not disable '' @ svc @ py '': '' @
              failure_text (subprocess_run w tr3 (disable_args sudo svc))
         else [0x1F6AB] @ py '' Disabled '' @ svc @ py ''.'')"
    for tr2 tr3 said_stop said_disable
    using main_body_present_eq [OF that(1) _ that(3) that(4) that(5)] that(2) by simp
  have c: "main_loop w sudo (svc # rest) tr0 =
      main_loop w sudo rest (snd (main_body w sudo svc tr0))"
    if "fst (main_body w sudo svc tr0) = Inr ()"
    using that by (cases "main_body w sudo svc tr0") auto
  show ?thesis
    unfolding Let_def
    by (intro conjI impI a b c) (assumption | rule refl)+
qed

theorem command_failures_survived_witness:
  "command_failed (subprocess_run silent_host ([] @ [Print (msg_checking (py ''vsftpd''))])
      (Shell list_cmd))
   \<and> main_body silent_host [] (py ''vsftpd'') [] =
       (Inr (), [Print (msg_checking (py ''vsftpd'')), Exec (Shell list_cmd),
                 Print ([0x26A0, 0xFE0F] @ py ''  '' @ py ''vsftpd'' @
                        py '' not found (not installed) or unit file missing.'')])
   \<and> fst (service_exists ssh_host (py ''ssh'')
         (two_skipped @ [Print (msg_checking (py ''ssh''))])) = Inr True
   \<and> command_failed (subprocess_run ssh_host
         (two_skipped @ [Print (msg_checking (py ''ssh'')), Exec (Shell list_cmd),
                         Print (msg_exists (py ''ssh''))])
         (stop_args (py ''sudo '') (py ''ssh'')))
   \<and> main_body ssh_host (py ''sudo '') (py ''ssh'') two_skipped =
       (Inr (), two_skipped @
          [Print (msg_checking (py ''ssh'')), Exec (Shell list_cmd),
           Print (msg_exists (py ''ssh'')),
           Exec (stop_args (py ''sudo '') (py ''ssh'')),
           Print ([0x2139, 0xFE0F] @ py ''  Could not stop '' @ py ''ssh'' @ py '': '' @
                  py ''Failed to connect to bus''),
           Exec (disable_args (py ''sudo '') (py ''ssh'')),
           Print ([0x2139, 0xFE0F] @ py ''  Could not disable '' @ py ''ssh'' @ py '': '' @
                  py ''Failed to connect to bus'')])
   \<and> main_loop ssh_host (py ''sudo '') [py ''ssh'', py ''postfix''] two_skipped =
       main_loop ssh_host (py ''sudo '') [py ''postfix'']
         (snd (main_body ssh_host (py ''sudo '') (py ''ssh'') two_skipped))"
proof -
  note absent = command_failures_survived
    [of "[]" "py ''vsftpd''" silent_host "[]" "[]", unfolded Let_def]
  note present = command_failures_survived
    [of two_skipped "py ''ssh''" ssh_host "py ''sudo ''" "[py ''postfix'']", unfolded Let_def]
  have a: "main_body silent_host [] (py ''vsftpd'') [] =
       (Inr (), [Print (msg_checking (py ''vsftpd'')), Exec (Shell list_cmd),
                 Print ([0x26A0, 0xFE0F] @ py ''  '' @ py ''vsftpd'' @
                        py '' not found (not installed) or unit file missing.'')])"
    using absent silent_host_listing_fails by simp
  have b: "main_body ssh_host (py ''sudo '') (py ''ssh'') two_skipped =
       (Inr (), two_skipped @
          [Print (msg_checking (py ''ssh'')), Exec (Shell list_cmd),
           Print (msg_exists (py ''ssh'')),
           Exec (stop_args (py ''sudo '') (py ''ssh'')),
           Print ([0x2139, 0xFE0F] @ py ''  Could not stop '' @ py ''ssh'' @ py '': '' @
                  py ''Failed to connect to bus''),
           Exec (disable_args (py ''sudo '') (py ''ssh'')),
           Print ([0x2139, 0xFE0F] @ py ''  Could not disable '' @ py ''ssh'' @ py '': '' @
                  py ''Failed to connect to bus'')])"
    using present ssh_host_ssh_found
    by (simp add: ssh_host_failure_text ssh_host_stop_fails)
  have c: "main_loop ssh_host (py ''sudo '') [py ''ssh'', py ''postfix''] two_skipped =
       main_loop ssh_host (py ''sudo '') [py ''postfix'']
         (snd (main_body ssh_host (py ''sudo '') (py ''ssh'') two_skipped))"
    using present b by simp
  show ?thesis
    by (intro conjI silent_host_listing_fails ssh_host_ssh_found ssh_host_stop_fails a b c)
qed

text \<open>
  A failed listing leaves no trace on the console: on \<open>silent_host\<close> every listing fails
  with a message on standard error, on \<open>healthy_host\<close> every listing succeeds, and
  \<open>main\<close> does and prints the same on both.
\<close>

theorem failed_listing_prints_nothing_about_it:
  "command_failed (subprocess_run silent_host [Print (msg_checking (py ''vsftpd''))]
      (Shell list_cmd))
   \<and> \<not> command_failed (subprocess_run healthy_host [Print (msg_checking (py ''vsftpd''))]
      (Shell list_cmd))
   \<and> main silent_host = main healthy_host"
proof -
  have "main silent_host = main healthy_host"
    by (simp add: main_def SERVICES_def sudo_prefix_def eval_defs silent_host_def
        healthy_host_def)
  with silent_host_listing_fails healthy_host_listing_ok show ?thesis by blast
qed


text \<open>
  C6: \<open>service_exists\<close> is meant to return \<open>True\<close> exactly when the listing succeeds and
  some line of it starts with \<open><svc>.service\<close>. The script does not achieve this: on
  \<open>blank_host\<close> the listing succeeds, its third line starts with \<open>ssh.service\<close>, and
  \<open>service_exists("ssh")\<close> does not return \<open>True\<close>, because the empty second line raises
  \<open>IndexError\<close> before the third is read.
\<close>

theorem blank_line_hides_unit:
  "subprocess_run blank_host [] (Shell list_cmd) = Completed 0 blank_listing []
   \<and> str_splitlines blank_listing =
       [py ''cron.service enabled'', [], py ''ssh.service enabled'']
   \<and> str_split (py ''ssh.service enabled'') = [py ''ssh.service'', py ''enabled'']
   \<and> service_exists blank_host (py ''ssh'') [] = (Inl IndexError, [Exec (Shell list_cmd)])"
  by (simp add: eval_defs blank_host_def blank_listing_def)

theorem blank_line_hides_unit_witness:
  "py ''ssh.service enabled'' \<in> set (str_splitlines blank_listing)
   \<and> hd (str_split (py ''ssh.service enabled'')) = py ''ssh'' @ py ''.service''
   \<and> fst (service_exists blank_host (py ''ssh'') []) \<noteq> Inr True"
  using blank_line_hides_unit by (simp add: py_def)

text \<open>
  C7: in every run of \<open>main\<close>, on every host, each external command is the shell command
  \<open>systemctl list-unit-files --type=service --all --no-legend --no-pager\<close> or one of the
  argument vectors \<open>[sudo,] systemctl stop <svc>\<close> and \<open>[sudo,] systemctl disable <svc>\<close>
  for a service of \<open>SERVICES\<close>. The only other events of a run are prints.
\<close>

theorem only_systemctl_commands:
  "\<forall>a\<in>set (execs (snd (main w))).
     a = Shell list_cmd \<or>
     (\<exists>svc\<in>set SERVICES.
        a = Argv (sudo_words w @ [py ''systemctl'', py ''stop'', svc]) \<or>
        a = Argv (sudo_words w @ [py ''systemctl'', py ''disable'', svc]))"
proof (cases "have_systemctl w")
  case False
  then show ?thesis by (simp add: main_def)
next
  case True
  obtain fin where fin: "snd (main w) = snd (main_loop w (sudo_prefix w) SERVICES []) @ fin"
      "execs fin = []"
    using main_trace [OF True] by blast
  obtain ext where ext: "snd (main_loop w (sudo_prefix w) SERVICES []) = [] @ ext"
      "set (execs ext) \<subseteq> commands_of (sudo_prefix w) SERVICES"
    using main_loop_trace [of w "sudo_prefix w" SERVICES "[]"] by blast
  have sub: "set (execs (snd (main w))) \<subseteq> commands_of (sudo_prefix w) SERVICES"
    using fin ext by (simp add: execs_append)
  show ?thesis
  proof
    fix a
    assume "a \<in> set (execs (snd (main w)))"
    with sub have "a \<in> commands_of (sudo_prefix w) SERVICES" by blast
    then consider "a = Shell list_cmd"
      | svc where "svc \<in> set SERVICES" "a = stop_args (sudo_prefix w) svc"
      | svc where "svc \<in> set SERVICES" "a = disable_args (sudo_prefix w) svc"
      by (auto simp add: commands_of_def)
    then show "a = Shell list_cmd \<or>
     (\<exists>svc\<in>set SERVICES.
        a = Argv (sudo_words w @ [py ''systemctl'', py ''stop'', svc]) \<or>
        a = Argv (sudo_words w @ [py ''systemctl'', py ''disable'', svc]))"
    proof cases
      case 1
      then show ?thesis by simp
    next
      case 2
      then show ?thesis using service_args(1) [OF 2(1), of w] by blast
    next
      case 3
      then show ?thesis using service_args(2) [OF 3(1), of w] by blast
    qed
  qed
qed

theorem only_systemctl_commands_witness:
  "Argv [py ''sudo'', py ''systemctl'', py ''stop'', py ''ssh''] \<in> set (execs (snd (main ssh_host)))
   \<and> (Argv [py ''sudo'', py ''systemctl'', py ''stop'', py ''ssh''] = Shell list_cmd \<or>
      (\<exists>svc\<in>set SERVICES.
         Argv [py ''sudo'', py ''systemctl'', py ''stop'', py ''ssh''] =
           Argv (sudo_words ssh_host @ [py ''systemctl'', py ''stop'', svc]) \<or>
         Argv [py ''sudo'', py ''systemctl'', py ''stop'', py ''ssh''] =
           Argv (sudo_words ssh_host @ [py ''systemctl'', py ''disable'', svc])))"
proof -
  have m: "Argv [py ''sudo'', py ''systemctl'', py ''stop'', py ''ssh'']
      \<in> set (execs (snd (main ssh_host)))"
    by (simp add: ssh_host_run)
  from only_systemctl_commands [of ssh_host] m
  have "Argv [py ''sudo'', py ''systemctl'', py ''stop'', py ''ssh''] = Shell list_cmd \<or>
      (\<exists>svc\<in>set SERVICES.
         Argv [py ''sudo'', py ''systemctl'', py ''stop'', py ''ssh''] =
           Argv (sudo_words ssh_host @ [py ''systemctl'', py ''stop'', svc]) \<or>
         Argv [py ''sudo'', py ''systemctl'', py ''stop'', py ''ssh''] =
           Argv (sudo_words ssh_host @ [py ''systemctl'', py ''disable'', svc]))"
    by (rule bspec)
  with m show ?thesis by (rule conjI)
qed

text \<open>
  C8: \<open>run_command\<close> does not return a triple whatever happens: when the call of
  \<open>subprocess.run\<close> is interrupted, \<open>KeyboardInterrupt\<close> leaves \<open>run_command\<close>, because
  the handler is \<open>except Exception\<close>. What holds is this. For every command string and
  \<open>use_shell\<close> flag, unless the call is interrupted, \<open>run_command\<close> returns a triple;
  when \<open>subprocess.run\<close> raises an \<open>Exception\<close>, the triple is return code 1, empty
  standard output and the message of the exception as standard error; and on a host,
  whose outcomes have no interrupt, \<open>run_command\<close> returns the same triple as here.
\<close>

theorem run_command_catches_exceptions:
  "(run (if use_shell then Shell cmd else Argv (str_split cmd)) \<noteq> Interrupted \<longrightarrow>
      (\<exists>rc out err. run_command_under run cmd use_shell = Inr (rc, out, err)))
   \<and> (\<forall>msg. run (if use_shell then Shell cmd else Argv (str_split cmd)) = Outcome (Raised msg) \<longrightarrow>
         run_command_under run cmd use_shell = Inr (1, [], msg))
   \<and> (run (if use_shell then Shell cmd else Argv (str_split cmd)) = Interrupted \<longrightarrow>
         run_command_under run cmd use_shell = Inl KeyboardInterrupt)
   \<and> ((\<forall>args. run args = Outcome (subprocess_run w tr args)) \<longrightarrow>
         (\<exists>r. run_command_under run cmd use_shell = Inr r
              \<and> fst (run_command w cmd use_shell tr) = Inr r))"
proof -
  let ?args = "if use_shell then Shell cmd else Argv (str_split cmd)"
  have a: "run ?args \<noteq> Interrupted \<longrightarrow>
      (\<exists>rc out err. run_command_under run cmd use_shell = Inr (rc, out, err))"
  proof (cases "run ?args")
    case (Outcome oc)
    then show ?thesis
      by (cases oc) (simp_all add: run_command_under_def Let_def)
  next
    case Interrupted
    then show ?thesis by simp
  qed
  have b: "\<forall>msg. run ?args = Outcome (Raised msg) \<longrightarrow>
         run_command_under run cmd use_shell = Inr (1, [], msg)"
    by (simp add: run_command_under_def Let_def)
  have c: "run ?args = Interrupted \<longrightarrow>
         run_command_under run cmd use_shell = Inl KeyboardInterrupt"
    by (simp add: run_command_under_def Let_def)
  have d: "(\<forall>args. run args = Outcome (subprocess_run w tr args)) \<longrightarrow>
         (\<exists>r. run_command_under run cmd use_shell = Inr r
              \<and> fst (run_command w cmd use_shell tr) = Inr r)"
  proof
    assume r: "\<forall>args. run args = Outcome (subprocess_run w tr args)"
    show "\<exists>r. run_command_under run cmd use_shell = Inr r
              \<and> fst (run_command w cmd use_shell tr) = Inr r"
      by (cases "subprocess_run w tr ?args")
        (simp_all add: run_command_under_def run_command_def Let_def r)
  qed
  from a b c d show ?thesis by blast
qed

theorem run_command_catches_exceptions_witness:
  "raising (py ''No such file'') (if False then Shell (py ''systemctl stop ssh'')
       else Argv (str_split (py ''systemctl stop ssh''))) = Outcome (Raised (py ''No such file''))
   \<and> run_command_under (raising (py ''No such file'')) (py ''systemctl stop ssh'') False =
       Inr (1, [], py ''No such file'')
   \<and> interrupting (if True then Shell list_cmd else Argv (str_split list_cmd)) = Interrupted
   \<and> run_command_under interrupting list_cmd True = Inl KeyboardInterrupt"
proof -
  have r: "raising (py ''No such file'') (if False then Shell (py ''systemctl stop ssh'')
       else Argv (str_split (py ''systemctl stop ssh''))) = Outcome (Raised (py ''No such file''))"
    by (simp add: raising_def)
  have i: "interrupting (if True then Shell list_cmd else Argv (str_split list_cmd)) = Interrupted"
    by (simp add: interrupting_def)
  from run_command_catches_exceptions
      [of "raising (py ''No such file'')" False "py ''systemctl stop ssh''"] r
  have a: "run_command_under (raising (py ''No such file'')) (py ''systemctl stop ssh'') False =
       Inr (1, [], py ''No such file'')"
    by blast
  from run_command_catches_exceptions [of interrupting True list_cmd] i
  have b: "run_command_under interrupting list_cmd True = Inl KeyboardInterrupt"
    by blast
  from r a i b show ?thesis by (intro conjI)
qed

text \<open>The interrupted call: no triple is returned, the exception propagates.\<close>

theorem run_command_interrupted:
  "run_command_under interrupting (py ''systemctl stop ssh'') False = Inl KeyboardInterrupt"
  by (simp add: run_command_under_def interrupting_def)

text \<open>
  C9: \<open>service_exists\<close> does not return for every listing. When \<open>systemctl\<close> is installed,
  the run of \<open>main\<close> comes to a service, the listing succeeds with return code 0, and the
  stripped output has a line without any token (an empty or whitespace-only line) before
  which no line starts with \<open><svc>.service\<close>, then \<open>line.split()[0]\<close> raises
  \<open>IndexError\<close>: it leaves \<open>service_exists\<close> and \<open>main\<close> uncaught and the exit status
  is 1. The witness is such an output: two units with an empty line between them.
\<close>

theorem blank_line_crashes:
  assumes sys: "have_systemctl w"
    and dec: "SERVICES = pre @ svc # post"
    and reach: "main_loop w (sudo_prefix w) pre [] = (Inr (), tr0)"
    and listing: "subprocess_run w (tr0 @ [Print (msg_checking svc)]) (Shell list_cmd) =
        Completed 0 out err"
    and lines: "str_splitlines (str_strip out) = before @ blank # rest"
    and blank: "str_split blank = []"
    and nomatch: "list_all (\<lambda>l. str_split l \<noteq> [] \<and> hd (str_split l) \<noteq> svc @ py ''.service'')
        before"
  shows "service_exists w svc (tr0 @ [Print (msg_checking svc)]) =
           (Inl IndexError, tr0 @ [Print (msg_checking svc), Exec (Shell list_cmd)])
      \<and> main w = (Inl IndexError, tr0 @ [Print (msg_checking svc), Exec (Shell list_cmd)])
      \<and> exit_status (fst (main w)) = 1"
proof -
  have "str_strip out \<noteq> []"
    using lines by (auto simp add: str_splitlines_def)
  then have se: "service_exists w svc (tr0 @ [Print (msg_checking svc)]) =
      (Inl IndexError, tr0 @ [Print (msg_checking svc), Exec (Shell list_cmd)])"
    by (simp add: service_exists_eq listing lines scan_lines_blank [OF blank nomatch])
  then have "main_body w (sudo_prefix w) svc tr0 =
      (Inl IndexError, tr0 @ [Print (msg_checking svc), Exec (Shell list_cmd)])"
    by (rule main_body_crash)
  then have "main w = (Inl IndexError, tr0 @ [Print (msg_checking svc), Exec (Shell list_cmd)])"
    by (rule main_crash [OF sys dec reach])
  with se show ?thesis by simp
qed

theorem blank_line_crashes_witness:
  "have_systemctl blank_host
   \<and> SERVICES = [] @ py ''vsftpd'' #
       [py ''proftpd'', py ''ssh'', py ''postfix'', py ''apache2'', py ''rpcbind'', py ''exim4'',
        py ''avahi-daemon'', py ''ModemManager'']
   \<and> main_loop blank_host (sudo_prefix blank_host) [] [] = (Inr (), [])
   \<and> subprocess_run blank_host ([] @ [Print (msg_checking (py ''vsftpd''))]) (Shell list_cmd) =
       Completed 0 blank_listing []
   \<and> str_splitlines (str_strip blank_listing) =
       [py ''cron.service enabled''] @ [] # [py ''ssh.service enabled'']
   \<and> str_split [] = []
   \<and> list_all (\<lambda>l. str_split l \<noteq> [] \<and> hd (str_split l) \<noteq> py ''vsftpd'' @ py ''.service'')
       [py ''cron.service enabled'']
   \<and> (service_exists blank_host (py ''vsftpd'') ([] @ [Print (msg_checking (py ''vsftpd''))]) =
         (Inl IndexError, [] @ [Print (msg_checking (py ''vsftpd'')), Exec (Shell list_cmd)])
      \<and> main blank_host =
         (Inl IndexError, [] @ [Print (msg_checking (py ''vsftpd'')), Exec (Shell list_cmd)])
      \<and> exit_status (fst (main blank_host)) = 1)"
  by (intro conjI blank_host_systemctl services_at_vsftpd main_loop_nothing blank_host_listing
      blank_listing_lines split_nothing cron_line_no_match
      blank_line_crashes [OF blank_host_systemctl services_at_vsftpd main_loop_nothing
        blank_host_listing blank_listing_lines split_nothing cron_line_no_match])



end
